theory Spec2Isabelle
  imports Main
begin

section \<open>Python strings, as excel\_handler.py uses them\<close>

text \<open>
  A Python \<open>str\<close> is a sequence of code points. A code point below 256 is written here as
  the \<open>char\<close> of that number (Latin-1), and the character classes below are Python's own on
  that range; strings with code points from 256 on are outside this development.
  A path is the name of a file: \<open>os.path.abspath\<close>, which only rewrites a name against
  the working directory, is not modelled.
\<close>

definition code_point :: "char \<Rightarrow> nat" where
  "code_point c = of_char c"

definition is_AZ :: "char \<Rightarrow> bool" where
  \<comment> \<open>the regular-expression class \<open>[A-Z]\<close>\<close>
  "is_AZ c \<longleftrightarrow> 65 \<le> code_point c \<and> code_point c \<le> 90"

definition is_09 :: "char \<Rightarrow> bool" where
  \<comment> \<open>the class \<open>[0-9]\<close>; \<open>\d\<close> matches the same characters below 256\<close>
  "is_09 c \<longleftrightarrow> 48 \<le> code_point c \<and> code_point c \<le> 57"

definition char_isdigit :: "char \<Rightarrow> bool" where
  \<comment> \<open>\<open>str.isdigit\<close> also accepts the superscripts two, three and one\<close>
  "char_isdigit c \<longleftrightarrow>
     is_09 c \<or> code_point c = 178 \<or> code_point c = 179 \<or> code_point c = 185"

definition char_isalpha :: "char \<Rightarrow> bool" where
  "char_isalpha c \<longleftrightarrow>
     (65 \<le> code_point c \<and> code_point c \<le> 90) \<or>
     (97 \<le> code_point c \<and> code_point c \<le> 122) \<or>
     code_point c = 170 \<or> code_point c = 181 \<or> code_point c = 186 \<or>
     (192 \<le> code_point c \<and> code_point c \<le> 214) \<or>
     (216 \<le> code_point c \<and> code_point c \<le> 246) \<or>
     (248 \<le> code_point c \<and> code_point c \<le> 255)"

definition char_isnumeric :: "char \<Rightarrow> bool" where
  "char_isnumeric c \<longleftrightarrow> char_isdigit c \<or> (188 \<le> code_point c \<and> code_point c \<le> 190)"

definition is_word :: "char \<Rightarrow> bool" where
  \<comment> \<open>the class \<open>\w\<close>: alphanumeric or underscore\<close>
  "is_word c \<longleftrightarrow> char_isalpha c \<or> char_isnumeric c \<or> c = CHR ''_''"

definition int_space :: "char \<Rightarrow> bool" where
  \<comment> \<open>the white space that \<open>int\<close> strips from both ends of its argument\<close>
  "int_space c \<longleftrightarrow>
     (9 \<le> code_point c \<and> code_point c \<le> 13) \<or> code_point c = 32 \<or>
     code_point c = 133 \<or> code_point c = 160"

definition isdigit :: "string \<Rightarrow> bool" where
  "isdigit s \<longleftrightarrow> s \<noteq> [] \<and> list_all char_isdigit s"

definition isalpha :: "string \<Rightarrow> bool" where
  "isalpha s \<longleftrightarrow> s \<noteq> [] \<and> list_all char_isalpha s"

definition char_lower :: "char \<Rightarrow> char" where
  "char_lower c =
     (if is_AZ c \<or> (192 \<le> code_point c \<and> code_point c \<le> 222 \<and> code_point c \<noteq> 215)
      then char_of (code_point c + 32) else c)"

definition lower :: "string \<Rightarrow> string" where
  "lower s = map char_lower s"

fun starts_with :: "string \<Rightarrow> string \<Rightarrow> bool" where
  "starts_with [] s = True"
| "starts_with (p # ps) [] = False"
| "starts_with (p # ps) (c # cs) = (p = c \<and> starts_with ps cs)"

fun str_contains :: "string \<Rightarrow> string \<Rightarrow> bool" where
  \<comment> \<open>\<open>sub in s\<close>\<close>
  "str_contains sub [] = (sub = [])"
| "str_contains sub (c # cs) = (starts_with sub (c # cs) \<or> str_contains sub cs)"

text \<open>
  \<open>s.split(sep)\<close> for a non-empty separator: occurrences are cut from the left and do not
  overlap. The result is never empty. (Python raises on an empty separator; every separator
  in the file is a non-empty literal.)
\<close>

fun split_from :: "string \<Rightarrow> string \<Rightarrow> string \<Rightarrow> string list" where
  "split_from sep acc [] = [rev acc]"
| "split_from sep acc (c # cs) =
     (if starts_with sep (c # cs)
      then rev acc # split_from sep [] (drop (length sep - 1) cs)
      else split_from sep (c # acc) cs)"

definition py_split :: "string \<Rightarrow> string \<Rightarrow> string list" where
  "py_split sep s = split_from sep [] s"

definition digit_char :: "nat \<Rightarrow> char" where
  "digit_char d = ''0123456789'' ! d"

fun show_nat :: "nat \<Rightarrow> string" where
  "show_nat n =
     (if n < 10 then [digit_char n] else show_nat (n div 10) @ [digit_char (n mod 10)])"

definition show_int :: "int \<Rightarrow> string" where
  \<comment> \<open>\<open>str(i)\<close>, as an f-string renders an int\<close>
  "show_int i = (if i < 0 then CHR ''-'' # show_nat (nat (- i)) else show_nat (nat i))"

subsection \<open>Exceptions\<close>

datatype exn =
    ValueError string
  | AttributeError string
  | TypeError string
  | OSError string
  | IndexError string
  | EOFError
  | ExcelError string

fun exn_str :: "exn \<Rightarrow> string" where
  \<comment> \<open>\<open>str(e)\<close>\<close>
  "exn_str (ValueError m) = m"
| "exn_str (AttributeError m) = m"
| "exn_str (TypeError m) = m"
| "exn_str (OSError m) = m"
| "exn_str (IndexError m) = m"
| "exn_str EOFError = []"
| "exn_str (ExcelError m) = m"

subsection \<open>The built-in int()\<close>

text \<open>
  \<open>int(s)\<close> strips white space, takes one optional sign, and reads decimal digits in which
  single underscores may stand between digits. Anything else is a \<open>ValueError\<close>. Python's
  ints are unbounded, but the interpreter refuses to convert a string of more than
  \<open>sys.int_max_str_digits\<close> digits, 4300 unless a program changes it, which the
  repository never does: it counts the digits it has read, leading zeros included, and
  raises a \<open>ValueError\<close> before it looks at what follows them. (The first message shows
  the argument between quotes where Python shows its \<open>repr\<close>.)
\<close>

fun digits_val :: "nat \<Rightarrow> string \<Rightarrow> nat" where
  "digits_val acc [] = acc"
| "digits_val acc (c # cs) = digits_val (10 * acc + (code_point c - 48)) cs"

fun no_double_underscore :: "string \<Rightarrow> bool" where
  "no_double_underscore (a # b # cs) =
     (\<not> (a = CHR ''_'' \<and> b = CHR ''_'') \<and> no_double_underscore (b # cs))"
| "no_double_underscore cs = True"

definition int_body_ok :: "string \<Rightarrow> bool" where
  "int_body_ok b \<longleftrightarrow>
     (case b of [] \<Rightarrow> False
      | c # cs \<Rightarrow> is_09 c \<and> is_09 (last (c # cs)) \<and>
          list_all (\<lambda>x. is_09 x \<or> x = CHR ''_'') (c # cs) \<and> no_double_underscore (c # cs))"

definition strip :: "string \<Rightarrow> string" where
  "strip s = rev (dropWhile int_space (rev (dropWhile int_space s)))"

definition max_str_digits :: nat where
  \<comment> \<open>the default of \<open>sys.int_max_str_digits\<close>\<close>
  "max_str_digits = 4300"

definition py_int :: "string \<Rightarrow> exn + int" where
  "py_int s =
     (let t = strip s;
          neg = (case t of [] \<Rightarrow> False | c # _ \<Rightarrow> c = CHR ''-'');
          body = (case t of [] \<Rightarrow> []
                  | c # cs \<Rightarrow> if c = CHR ''-'' \<or> c = CHR ''+'' then cs else c # cs);
          run = takeWhile (\<lambda>x. is_09 x \<or> x = CHR ''_'') body;
          digits = filter is_09 run;
          invalid = ValueError
            (''invalid literal for int() with base 10: '' @ [CHR 0x27] @ s @ [CHR 0x27])
      in if \<not> int_body_ok run then Inl invalid
         else if max_str_digits < length digits then
           Inl (ValueError
             (''Exceeds the limit ('' @ show_nat max_str_digits @
              '' digits) for integer string conversion: value has '' @
              show_nat (length digits) @
              '' digits; use sys.set_int_max_str_digits() to increase the limit''))
         else if run \<noteq> body then Inl invalid
         else Inr ((if neg then - 1 else 1) * int (digits_val 0 digits)))"

subsection \<open>Regular expressions\<close>

text \<open>
  \<open>re.search\<close> returns the leftmost match: the match is tried at each position in turn,
  the end of the string included.
\<close>

fun re_search :: "(string \<Rightarrow> 'a option) \<Rightarrow> string \<Rightarrow> 'a option" where
  "re_search m [] = m []"
| "re_search m (c # cs) = (case m (c # cs) of Some r \<Rightarrow> Some r | None \<Rightarrow> re_search m cs)"

text \<open>
  \<open>[A-Z]+[0-9]+\<close> at the start of a string. Both runs are greedy, and a shorter run of
  letters is followed by a letter, never by a digit, so backtracking finds nothing that the
  longest runs miss. The result is the letters, the digits and the rest of the string.
\<close>

definition cell_at :: "string \<Rightarrow> (string \<times> string \<times> string) option" where
  "cell_at s =
     (let col = takeWhile is_AZ s; r1 = dropWhile is_AZ s;
          row = takeWhile is_09 r1; r2 = dropWhile is_09 r1
      in if col \<noteq> [] \<and> row \<noteq> [] then Some (col, row, r2) else None)"

text \<open>
  \<open>[A-Z]+[0-9]+:[A-Z]+[0-9]+\<close> at the start of a string: the first run of digits must
  reach the colon, so it is the longest one. The result is the matched text and the rest.
\<close>

definition range_at :: "string \<Rightarrow> (string \<times> string) option" where
  "range_at s =
     (case cell_at s of None \<Rightarrow> None
      | Some (c1, r1, rest) \<Rightarrow>
          (case rest of [] \<Rightarrow> None
           | x # rest' \<Rightarrow>
               if x = CHR '':'' then
                 (case cell_at rest' of None \<Rightarrow> None
                  | Some (c2, r2, rest'') \<Rightarrow> Some (c1 @ r1 @ '':'' @ c2 @ r2, rest''))
               else None))"

section \<open>Address validation: \_parse\_cell\_reference\<close>

text \<open>
  The method returns \<open>cell_ref.split(':')\<close>, a list, on its first branch and a pair on the
  others; both are lists of strings here. \<open>re.match\<close> anchors the pattern
  \<open>([A-Z]+)([0-9]+)\<close> at the start of the string only. The pair returned on the last branch
  holds the two matched strings: the row is returned as text, not as \<open>row_num\<close>.
\<close>

definition parse_cell_reference :: "string \<Rightarrow> exn + string list" where
  "parse_cell_reference cell_ref =
     (if str_contains '':'' cell_ref then Inr (py_split '':'' cell_ref)
      else if isdigit cell_ref then
        (case py_int cell_ref of
           Inl e \<Rightarrow> Inl e
         | Inr row_num \<Rightarrow>
             if row_num < 1 \<or> row_num > 1048576
             then Inl (ValueError (''Invalid row number: '' @ show_int row_num))
             else Inr [cell_ref, cell_ref])
      else if isalpha cell_ref then
        (if length cell_ref > 3
         then Inl (ValueError (''Invalid column reference: '' @ cell_ref))
         else Inr [cell_ref, cell_ref])
      else
        (case cell_at cell_ref of
           None \<Rightarrow> Inl (ValueError (''Invalid cell reference format: '' @ cell_ref))
         | Some (col, row, rest) \<Rightarrow>
             (case py_int row of
                Inl e \<Rightarrow> Inl e
              | Inr row_num \<Rightarrow>
                  if length col > 3
                  then Inl (ValueError (''Invalid column reference: '' @ col))
                  else if row_num < 1 \<or> row_num > 1048576
                  then Inl (ValueError (''Invalid row number: '' @ show_int row_num))
                  else Inr [col, row])))"


section \<open>Operations: OperationType and ExcelChange\<close>

datatype OperationType =
    UPDATE | FORMULA | COPY | FORMAT | NUMBER_FORMAT | COLUMN_WIDTH
  | CLEAR | INSERT_ROW | DELETE_COLUMN | NAMED_RANGE

text \<open>
  The payload of a change is a Python value: \<open>None\<close>, a string, a float, an int or the
  dictionary \<open>{"bold": True}\<close>. The built-in \<open>float\<close> is the interpreter's: its
  grammar and rounding are a parameter \<open>float_of\<close> of the parser, which gives \<open>None\<close>
  where \<open>float(s)\<close> raises \<open>ValueError\<close>, and floats are values of a type \<open>'f\<close>.
\<close>

datatype 'f pyval =
    PyNone
  | PyStr string
  | PyFloat 'f
  | PyInt int
  | PyDict "(string \<times> bool) list"

text \<open>
  The dataclass. Its sixth field, \<open>timestamp\<close>, has a default that is evaluated once, when
  the class is defined, and no method reads it: it is the same constant in every change
  and is left out. The field \<open>value\<close> is called \<open>change_value\<close> here.
\<close>

record 'f ExcelChange =
  operation :: OperationType
  target :: string
  change_value :: "'f pyval"
  status :: string
  error :: "string option"

definition new_change :: "OperationType \<Rightarrow> string \<Rightarrow> 'f pyval \<Rightarrow> 'f ExcelChange" where
  \<comment> \<open>\<open>ExcelChange(operation=..., target=..., value=...)\<close> with the defaults of the class\<close>
  "new_change opr t v =
     \<lparr>operation = opr, target = t, change_value = v, status = ''pending'', error = None\<rparr>"

definition bindE :: "exn + 'a \<Rightarrow> ('a \<Rightarrow> exn + 'b) \<Rightarrow> exn + 'b" where
  \<comment> \<open>sequencing: an exception of the first step skips the rest\<close>
  "bindE x f = (case x of Inl e \<Rightarrow> Inl e | Inr v \<Rightarrow> f v)"

section \<open>The instruction parser: \_parse\_change\_instruction\<close>

definition convert_value :: "(string \<Rightarrow> 'f option) \<Rightarrow> string \<Rightarrow> 'f pyval" where
  "convert_value float_of v = (case float_of v of Some x \<Rightarrow> PyFloat x | None \<Rightarrow> PyStr v)"

definition group1 :: "'a option \<Rightarrow> exn + 'a" where
  \<comment> \<open>\<open>re.search(...).group(1)\<close>: a failed search is \<open>None\<close>, which has no \<open>group\<close>\<close>
  "group1 m =
     (case m of
        None \<Rightarrow>
          Inl (AttributeError ([CHR 0x27] @ ''NoneType'' @ [CHR 0x27] @
                 '' object has no attribute '' @ [CHR 0x27] @ ''group'' @ [CHR 0x27]))
      | Some g \<Rightarrow> Inr g)"

definition after_literal :: "string \<Rightarrow> (string \<Rightarrow> 'a option) \<Rightarrow> string \<Rightarrow> 'a option" where
  \<comment> \<open>a literal text followed by a group, at the start of a string\<close>
  "after_literal lit m s = (if starts_with lit s then m (drop (length lit) s) else None)"

definition cell_group :: "string \<Rightarrow> string option" where
  \<comment> \<open>\<open>([A-Z]+[0-9]+)\<close>\<close>
  "cell_group s = (case cell_at s of None \<Rightarrow> None | Some (c, r, rest) \<Rightarrow> Some (c @ r))"

definition range_group :: "string \<Rightarrow> string option" where
  \<comment> \<open>\<open>([A-Z]+[0-9]+:[A-Z]+[0-9]+)\<close>\<close>
  "range_group s = (case range_at s of None \<Rightarrow> None | Some (g, rest) \<Rightarrow> Some g)"

definition letters_group :: "string \<Rightarrow> string option" where
  \<comment> \<open>\<open>([A-Z]+)\<close>\<close>
  "letters_group s = (let c = takeWhile is_AZ s in if c \<noteq> [] then Some c else None)"

definition digits_group :: "string \<Rightarrow> string option" where
  \<comment> \<open>\<open>(\d+)\<close>\<close>
  "digits_group s = (let d = takeWhile is_09 s in if d \<noteq> [] then Some d else None)"

text \<open>
  \<open>Set ([A-Z]+[0-9]+(?::[A-Z]+[0-9]+)?) formula to\<close>. After the first cell the next
  character decides: behind a colon only the second cell can follow, since the text
  \<open> formula to\<close> begins with a space.
\<close>

definition formula_target_at :: "string \<Rightarrow> string option" where
  "formula_target_at s =
     (if starts_with ''Set '' s then
        (case cell_at (drop 4 s) of None \<Rightarrow> None
         | Some (c1, r1, rest) \<Rightarrow>
             (case rest of [] \<Rightarrow> None
              | x # rest' \<Rightarrow>
                  if x = CHR '':'' then
                    (case cell_at rest' of None \<Rightarrow> None
                     | Some (c2, r2, rest'') \<Rightarrow>
                         if starts_with '' formula to'' rest''
                         then Some (c1 @ r1 @ '':'' @ c2 @ r2) else None)
                  else if starts_with '' formula to'' rest then Some (c1 @ r1) else None))
      else None)"

text \<open>
  \<open>range (\w+) for ([A-Z]+[0-9]+:[A-Z]+[0-9]+)\<close>. The name is the longest run of word
  characters: a shorter one is followed by a word character, not by the space of \<open> for \<close>.
\<close>

definition named_range_at :: "string \<Rightarrow> (string \<times> string) option" where
  "named_range_at s =
     (if starts_with ''range '' s then
        (let name = takeWhile is_word (drop 6 s); rest = dropWhile is_word (drop 6 s)
         in if name \<noteq> [] \<and> starts_with '' for '' rest
            then (case range_at (drop 5 rest) of None \<Rightarrow> None
                  | Some (g, rest') \<Rightarrow> Some (name, g))
            else None)
      else None)"

text \<open>
  The body of the method's \<open>try\<close> block. \<open>Inr None\<close> is \<open>return None\<close>, \<open>Inl e\<close> is an
  exception raised inside the block. Logging is not modelled.
\<close>

definition parse_change_instruction_body ::
  "(string \<Rightarrow> 'f option) \<Rightarrow> string \<Rightarrow> exn + 'f ExcelChange option" where
  "parse_change_instruction_body float_of change =
     (if str_contains ''Update cell'' change then
        (case re_search cell_group change of
           None \<Rightarrow> Inr None
         | Some cell_ref \<Rightarrow>
             Inr (Some (new_change UPDATE cell_ref
                    (convert_value float_of (last (py_split '' to '' change))))))
      else if str_contains ''Format'' change \<and> str_contains ''as header'' change then
        bindE (group1 (re_search range_group change)) (\<lambda>range_ref.
          Inr (Some (new_change FORMAT range_ref (PyDict [(''bold'', True)]))))
      else if str_contains ''Set'' change \<and> str_contains ''number format'' change then
        bindE (group1 (re_search range_group change)) (\<lambda>range_ref.
          Inr (Some (new_change NUMBER_FORMAT range_ref
                 (if str_contains ''currency'' change then PyStr ''currency'' else PyNone))))
      else if str_contains ''Set'' change \<and> str_contains ''formula'' change then
        bindE (group1 (re_search formula_target_at change)) (\<lambda>range_ref.
          Inr (Some (new_change FORMULA range_ref (PyStr (last (py_split '' to '' change))))))
      else if str_contains ''Copy range'' change then
        bindE (group1 (re_search range_group change)) (\<lambda>source_range.
        bindE (group1 (re_search (after_literal ''to '' cell_group) change)) (\<lambda>target_cell.
          Inr (Some (new_change COPY (source_range @ '' to '' @ target_cell) PyNone))))
      else if str_contains ''Set column'' change \<and> str_contains ''width'' change then
        bindE (group1 (re_search (after_literal ''column '' letters_group) change)) (\<lambda>column.
        bindE (group1 (re_search (after_literal ''to '' digits_group) change)) (\<lambda>w.
        bindE (py_int w) (\<lambda>width.
          Inr (Some (new_change COLUMN_WIDTH (column @ '':'' @ column) (PyInt width))))))
      else if str_contains ''Clear contents'' change then
        bindE (group1 (re_search range_group change)) (\<lambda>range_ref.
          Inr (Some (new_change CLEAR range_ref PyNone)))
      else if str_contains ''Insert row'' change then
        bindE (group1 (re_search (after_literal ''position '' digits_group) change)) (\<lambda>position.
          Inr (Some (new_change INSERT_ROW (position @ '':'' @ position) PyNone)))
      else if str_contains ''Delete column'' change then
        bindE (group1 (re_search (after_literal ''column '' letters_group) change)) (\<lambda>column.
          Inr (Some (new_change DELETE_COLUMN (column @ '':'' @ column) PyNone)))
      else if str_contains ''Create named range'' change then
        (case re_search named_range_at change of
           None \<Rightarrow> Inl (ValueError (''Invalid named range format: '' @ change))
         | Some (name, range_ref) \<Rightarrow> Inr (Some (new_change NAMED_RANGE range_ref (PyStr name))))
      else Inr None)"

text \<open>The method: \<open>except Exception\<close> turns every exception of the body into \<open>None\<close>.\<close>

definition parse_change_instruction ::
  "(string \<Rightarrow> 'f option) \<Rightarrow> string \<Rightarrow> 'f ExcelChange option" where
  "parse_change_instruction float_of change =
     (case parse_change_instruction_body float_of change of
        Inl e \<Rightarrow> None
      | Inr r \<Rightarrow> r)"

section \<open>The batch validator: validate\_changes\<close>

definition unpack2 :: "'a list \<Rightarrow> exn + ('a \<times> 'a)" where
  \<comment> \<open>\<open>a, b = xs\<close>\<close>
  "unpack2 xs =
     (case xs of
        [a, b] \<Rightarrow> Inr (a, b)
      | _ \<Rightarrow> Inl (ValueError
          (if length xs > 2 then ''too many values to unpack (expected 2)''
           else ''not enough values to unpack (expected 2, got '' @ show_nat (length xs) @ '')'')))"

definition item0 :: "'a list \<Rightarrow> exn + 'a" where
  \<comment> \<open>\<open>xs[0]\<close>\<close>
  "item0 xs = (case xs of [] \<Rightarrow> Inl (IndexError ''list index out of range'') | x # _ \<Rightarrow> Inr x)"

text \<open>The inner \<open>try\<close> block of the loop: the address checks on the target of a change.\<close>

definition check_target :: "string \<Rightarrow> exn + unit" where
  "check_target tgt =
     (if str_contains '':'' tgt then
        (if str_contains '' to '' tgt then
           bindE (unpack2 (py_split '' to '' tgt)) (\<lambda>(source, dest).
           bindE (item0 (py_split '':'' source)) (\<lambda>first.
           bindE (parse_cell_reference first) (\<lambda>_.
           bindE (parse_cell_reference dest) (\<lambda>_. Inr ()))))
         else
           bindE (unpack2 (py_split '':'' tgt)) (\<lambda>(start, end).
           bindE (parse_cell_reference start) (\<lambda>_.
           bindE (parse_cell_reference end) (\<lambda>_. Inr ()))))
      else bindE (parse_cell_reference tgt) (\<lambda>_. Inr ()))"

text \<open>
  The outer \<open>try\<close> block of one iteration, up to the change it appends. \<open>except ValueError\<close>
  of the inner block takes a \<open>ValueError\<close>; any other exception leaves the block.
\<close>

definition validate_line_body :: "(string \<Rightarrow> 'f option) \<Rightarrow> string \<Rightarrow> exn + 'f ExcelChange" where
  "validate_line_body float_of change =
     (case parse_change_instruction float_of change of
        Some excel_change \<Rightarrow>
          (case check_target (target excel_change) of
             Inr _ \<Rightarrow> Inr (excel_change\<lparr>status := ''valid''\<rparr>)
           | Inl (ValueError m) \<Rightarrow> Inr (excel_change\<lparr>status := ''error'', error := Some m\<rparr>)
           | Inl e \<Rightarrow> Inl e)
      | None \<Rightarrow>
          Inr \<lparr>operation = UPDATE, target = [], change_value = PyStr [],
               status = ''error'', error = Some ''Invalid instruction format''\<rparr>)"

text \<open>One iteration: the change that is appended, by the block or by \<open>except Exception\<close>.\<close>

definition validate_line :: "(string \<Rightarrow> 'f option) \<Rightarrow> string \<Rightarrow> 'f ExcelChange" where
  "validate_line float_of change =
     (case validate_line_body float_of change of
        Inr excel_change \<Rightarrow> excel_change
      | Inl e \<Rightarrow>
          \<lparr>operation = UPDATE, target = [], change_value = PyStr [],
           status = ''error'', error = Some (''Validation error: '' @ exn_str e)\<rparr>)"

fun validate_changes :: "(string \<Rightarrow> 'f option) \<Rightarrow> string list \<Rightarrow> 'f ExcelChange list" where
  "validate_changes float_of [] = []"
| "validate_changes float_of (change # changes) =
     validate_line float_of change # validate_changes float_of changes"


section \<open>The collaborators: Excel, the file system and the user\<close>

text \<open>
  xlwings and Excel are not part of the repository. The calls that change the document are
  the constructors of \<open>call\<close>, and Excel is a parameter that says what each call does to a
  document of type \<open>'d\<close>, or which exception it raises. \<open>sheet_range\<close> stands for
  \<open>active_sheet.range(address)\<close>, which changes nothing and may raise; \<open>encode\<close> is what
  \<open>save\<close> writes for a document and \<open>decode\<close> is what \<open>books.open\<close> reads, \<open>None\<close> when
  Excel cannot open the file. File contents have type \<open>'b\<close>.
\<close>

datatype 'f call =
    Copy string string
  | SetValue string "'f pyval"
  | SetFormula string "'f pyval"
  | SetBold string
  | SetNumberFormat string string
  | SetColumnWidth string "'f pyval"
  | ClearContents string
  | RowsInsert int
  | ColumnsDelete string
  | NamesAdd "'f pyval" string

record ('f, 'd, 'b) excel =
  sheet_range :: "string \<Rightarrow> 'd \<Rightarrow> exn option"
  perform :: "'f call \<Rightarrow> 'd \<Rightarrow> exn + 'd"
  encode :: "'d \<Rightarrow> 'b"
  decode :: "'b \<Rightarrow> 'd option"

record 'd book =
  fullname :: string
  content :: 'd

text \<open>
  The handler. \<open>workbook\<close> is \<open>None\<close> or an open book. A book that has been closed raises
  on every access, as \<open>None\<close> does, and the methods below treat the two alike, so a closed
  book is written \<open>None\<close>. \<open>app\<close> and \<open>active_sheet\<close> tell whether the attribute is set;
  the active sheet is a sheet of \<open>workbook\<close>.
\<close>

record ('f, 'd) ExcelHandler =
  workbook :: "'d book option"
  app :: bool
  active_sheet :: bool
  dry_run :: bool
  change_history :: "'f ExcelChange list"
  backup_path :: "string option"
  visible :: bool

text \<open>
  The world outside the process: the files on disk, the lines the user will type at the
  prompt, and the outcomes of the calls that touch Excel's files, in the order of the calls.
  Each such call takes the next outcome, \<open>Some e\<close> to raise \<open>e\<close>; once the list is used up
  every call succeeds. A call that raises leaves the disk as it was.
\<close>

record 'b world =
  disk :: "string \<Rightarrow> 'b option"
  io_faults :: "exn option list"
  stdin :: "string list"

definition io_call :: "'b world \<Rightarrow> exn option \<times> 'b world" where
  "io_call w = (case io_faults w of [] \<Rightarrow> (None, w) | f # fs \<Rightarrow> (f, w\<lparr>io_faults := fs\<rparr>))"

definition book_save :: "('f, 'd, 'b) excel \<Rightarrow> 'd book \<Rightarrow> 'b world \<Rightarrow> exn option \<times> 'b world" where
  \<comment> \<open>\<open>workbook.save()\<close>\<close>
  "book_save xl b w =
     (case io_call w of
        (Some e, w1) \<Rightarrow> (Some e, w1)
      | (None, w1) \<Rightarrow> (None, w1\<lparr>disk := (disk w1)(fullname b \<mapsto> encode xl (content b))\<rparr>))"

definition copy2 :: "string \<Rightarrow> string \<Rightarrow> 'b world \<Rightarrow> exn option \<times> 'b world" where
  \<comment> \<open>\<open>shutil.copy2(src, dst)\<close>\<close>
  "copy2 src dst w =
     (case io_call w of
        (Some e, w1) \<Rightarrow> (Some e, w1)
      | (None, w1) \<Rightarrow>
          (case disk w1 src of
             None \<Rightarrow> (Some (OSError ''No such file or directory''), w1)
           | Some bytes \<Rightarrow>
               if src = dst then (Some (OSError ''are the same file''), w1)
               else (None, w1\<lparr>disk := (disk w1)(dst \<mapsto> bytes)\<rparr>)))"

definition os_remove :: "string \<Rightarrow> 'b world \<Rightarrow> exn option \<times> 'b world" where
  "os_remove path w =
     (case io_call w of
        (Some e, w1) \<Rightarrow> (Some e, w1)
      | (None, w1) \<Rightarrow>
          (case disk w1 path of
             None \<Rightarrow> (Some (OSError ''No such file or directory''), w1)
           | Some bytes \<Rightarrow> (None, w1\<lparr>disk := (disk w1)(path := None)\<rparr>)))"

definition book_close :: "'b world \<Rightarrow> exn option \<times> 'b world" where
  \<comment> \<open>\<open>workbook.close()\<close>\<close>
  "book_close w = io_call w"

definition books_open :: "('f, 'd, 'b) excel \<Rightarrow> string \<Rightarrow> 'b world \<Rightarrow> (exn + 'd book) \<times> 'b world" where
  \<comment> \<open>\<open>app.books.open(path)\<close>\<close>
  "books_open xl path w =
     (case io_call w of
        (Some e, w1) \<Rightarrow> (Inl e, w1)
      | (None, w1) \<Rightarrow>
          (case disk w1 path of
             None \<Rightarrow> (Inl (ExcelError ''file not found''), w1)
           | Some bytes \<Rightarrow>
               (case decode xl bytes of
                  None \<Rightarrow> (Inl (ExcelError ''cannot open file''), w1)
                | Some d \<Rightarrow> (Inr \<lparr>fullname = path, content = d\<rparr>, w1))))"

definition book_activate :: "'b world \<Rightarrow> exn option \<times> 'b world" where
  \<comment> \<open>\<open>workbook.activate()\<close>\<close>
  "book_activate w = io_call w"

definition backup_file :: string where
  \<comment> \<open>\<open>os.path.join("output", "backups", "current_backup.xlsx")\<close>\<close>
  "backup_file = ''output/backups/current_backup.xlsx''"

section \<open>Backup and restore\<close>

text \<open>
  Each method returns its Boolean result with the handler and the world after the call.
  \<open>except Exception\<close> ends a method with \<open>False\<close> in the state the exception left.
\<close>

definition create_backup ::
  "('f, 'd, 'b) excel \<Rightarrow> ('f, 'd) ExcelHandler \<Rightarrow> 'b world
     \<Rightarrow> bool \<times> ('f, 'd) ExcelHandler \<times> 'b world" where
  "create_backup xl h w =
     (case workbook h of
        None \<Rightarrow> (False, h, w)
      | Some b \<Rightarrow>
          (case book_save xl b w of
             (Some e, w1) \<Rightarrow> (False, h, w1)
           | (None, w1) \<Rightarrow>
               (case copy2 (fullname b) backup_file w1 of
                  (Some e, w2) \<Rightarrow> (False, h, w2)
                | (None, w2) \<Rightarrow> (True, h\<lparr>backup_path := Some backup_file\<rparr>, w2))))"

definition restore_from_backup ::
  "('f, 'd, 'b) excel \<Rightarrow> ('f, 'd) ExcelHandler \<Rightarrow> 'b world
     \<Rightarrow> bool \<times> ('f, 'd) ExcelHandler \<times> 'b world" where
  "restore_from_backup xl h w =
     (case backup_path h of
        None \<Rightarrow> (False, h, w)
      | Some bp \<Rightarrow>
          if bp = [] \<or> disk w bp = None then (False, h, w)
          else
            (case workbook h of
               None \<Rightarrow> (False, h, w)
             | Some b \<Rightarrow>
                 (case book_close w of
                    (Some e, w1) \<Rightarrow> (False, h, w1)
                  | (None, w1) \<Rightarrow>
                      (let h1 = h\<lparr>workbook := None, active_sheet := False\<rparr> in
                       case (if disk w1 (fullname b) \<noteq> None then os_remove (fullname b) w1
                             else (None, w1)) of
                         (Some e, w2) \<Rightarrow> (False, h1, w2)
                       | (None, w2) \<Rightarrow>
                           (case copy2 bp (fullname b) w2 of
                              (Some e, w3) \<Rightarrow> (False, h1, w3)
                            | (None, w3) \<Rightarrow>
                                if \<not> app h1 then (False, h1, w3)
                                else
                                  (case books_open xl (fullname b) w3 of
                                     (Inl e, w4) \<Rightarrow> (False, h1, w4)
                                   | (Inr b', w4) \<Rightarrow>
                                       (let h2 = h1\<lparr>workbook := Some b', active_sheet := True\<rparr> in
                                        case book_activate w4 of
                                          (Some e, w5) \<Rightarrow> (False, h2, w5)
                                        | (None, w5) \<Rightarrow> (True, h2, w5))))))))"

section \<open>Applying changes\<close>

definition dict_get :: "'f pyval \<Rightarrow> string \<Rightarrow> exn + bool option" where
  \<comment> \<open>\<open>value.get(key)\<close>: only a dictionary has \<open>get\<close>\<close>
  "dict_get v k =
     (case v of PyDict kvs \<Rightarrow> Inr (map_of kvs k)
      | _ \<Rightarrow> Inl (AttributeError ''object has no attribute get''))"

definition get_range :: "('f, 'd, 'b) excel \<Rightarrow> string \<Rightarrow> 'd \<Rightarrow> exn + unit" where
  "get_range xl address d = (case sheet_range xl address d of Some e \<Rightarrow> Inl e | None \<Rightarrow> Inr ())"

text \<open>
  The body of the loop of \<open>_apply_validated_changes\<close> for one change, on the document of
  the open workbook: the document after the change, or the exception raised.
\<close>

definition apply_change :: "('f, 'd, 'b) excel \<Rightarrow> 'f ExcelChange \<Rightarrow> 'd \<Rightarrow> exn + 'd" where
  "apply_change xl change d =
     (if operation change = COPY then
        bindE (unpack2 (py_split '' to '' (target change))) (\<lambda>(source, dest).
        bindE (get_range xl source d) (\<lambda>_.
        bindE (get_range xl dest d) (\<lambda>_.
          perform xl (Copy source dest) d)))
      else
        bindE (get_range xl (target change) d) (\<lambda>_.
          case operation change of
            UPDATE \<Rightarrow> perform xl (SetValue (target change) (change_value change)) d
          | FORMULA \<Rightarrow> perform xl (SetFormula (target change) (change_value change)) d
          | FORMAT \<Rightarrow>
              bindE (dict_get (change_value change) ''bold'') (\<lambda>bold.
                if bold = Some True then perform xl (SetBold (target change)) d else Inr d)
          | NUMBER_FORMAT \<Rightarrow>
              if change_value change = PyStr ''currency''
              then perform xl (SetNumberFormat (target change) ''$#,##0.00'') d else Inr d
          | COLUMN_WIDTH \<Rightarrow> perform xl (SetColumnWidth (target change) (change_value change)) d
          | CLEAR \<Rightarrow> perform xl (ClearContents (target change)) d
          | INSERT_ROW \<Rightarrow>
              bindE (item0 (py_split '':'' (target change))) (\<lambda>first.
              bindE (py_int first) (\<lambda>row_num.
                perform xl (RowsInsert row_num) d))
          | DELETE_COLUMN \<Rightarrow>
              bindE (item0 (py_split '':'' (target change))) (\<lambda>col_letter.
                perform xl (ColumnsDelete col_letter) d)
          | NAMED_RANGE \<Rightarrow>
              bindE (unpack2 (py_split '':'' (target change))) (\<lambda>(start, end).
              bindE (bindE (parse_cell_reference start) unpack2) (\<lambda>(start_col, start_row).
              bindE (bindE (parse_cell_reference end) unpack2) (\<lambda>(end_col, end_row).
                perform xl (NamesAdd (change_value change)
                  (''=Sheet1!'' @ ''$'' @ start_col @ ''$'' @ start_row @ '':''
                     @ ''$'' @ end_col @ ''$'' @ end_row)) d)))
          | COPY \<Rightarrow> Inr d))"

text \<open>
  The method. Each change that succeeds is marked \<open>applied\<close> and appended to the history;
  the first exception ends the loop with \<open>False\<close> and keeps what was changed before it.
  Without an active sheet or a workbook the first access of an iteration raises.
\<close>

fun apply_validated_changes ::
  "('f, 'd, 'b) excel \<Rightarrow> 'f ExcelChange list \<Rightarrow> ('f, 'd) ExcelHandler
     \<Rightarrow> bool \<times> ('f, 'd) ExcelHandler" where
  "apply_validated_changes xl [] h = (True, h)"
| "apply_validated_changes xl (change # changes) h =
     (case workbook h of
        None \<Rightarrow> (False, h)
      | Some b \<Rightarrow>
          if \<not> active_sheet h then (False, h)
          else
            (case apply_change xl change (content b) of
               Inl e \<Rightarrow> (False, h)
             | Inr d \<Rightarrow>
                 apply_validated_changes xl changes
                   (h\<lparr>workbook := Some (b\<lparr>content := d\<rparr>),
                      change_history := change_history h @ [change\<lparr>status := ''applied''\<rparr>]\<rparr>)))"

text \<open>
  The handler of \<open>apply_changes\<close> for an exception raised in its body: a restore is tried
  when a backup path is set, and the result is \<open>False\<close>.
\<close>

definition on_exception ::
  "('f, 'd, 'b) excel \<Rightarrow> ('f, 'd) ExcelHandler \<Rightarrow> 'b world
     \<Rightarrow> bool \<times> ('f, 'd) ExcelHandler \<times> 'b world" where
  "on_exception xl h w =
     (case backup_path h of
        None \<Rightarrow> (False, h, w)
      | Some bp \<Rightarrow>
          if bp = [] then (False, h, w)
          else (case restore_from_backup xl h w of (r, h', w') \<Rightarrow> (False, h', w')))"

text \<open>
  \<open>apply_changes\<close>. \<open>instructions\<close> is the dictionary; \<open>input\<close> takes the next line the user
  types and raises \<open>EOFError\<close> when there is none.
\<close>

definition apply_changes ::
  "('f, 'd, 'b) excel \<Rightarrow> (string \<Rightarrow> 'f option) \<Rightarrow> (string \<Rightarrow> string list option)
     \<Rightarrow> ('f, 'd) ExcelHandler \<Rightarrow> 'b world \<Rightarrow> bool \<times> ('f, 'd) ExcelHandler \<times> 'b world" where
  "apply_changes xl float_of instructions h w =
     (let changes = (case instructions ''required_changes'' of None \<Rightarrow> [] | Some cs \<Rightarrow> cs) in
      if changes = [] then (True, h, w)
      else
        (case workbook h of
           None \<Rightarrow> on_exception xl h w
         | Some b \<Rightarrow>
             (case (if disk w (fullname b) \<noteq> None then create_backup xl h w else (True, h, w)) of
                (False, h1, w1) \<Rightarrow> (False, h1, w1)
              | (True, h1, w1) \<Rightarrow>
                  (let validated_changes = validate_changes float_of changes in
                   if \<not> list_all (\<lambda>c. status c = ''valid'') validated_changes
                   then (False, h1, w1)
                   else if dry_run h1 then (True, h1, w1)
                   else
                     (case apply_validated_changes xl validated_changes h1 of
                        (False, h2) \<Rightarrow>
                          (case backup_path h2 of
                             None \<Rightarrow> (False, h2, w1)
                           | Some bp \<Rightarrow>
                               if bp = [] then (False, h2, w1)
                               else (case restore_from_backup xl h2 w1 of
                                       (r, h3, w3) \<Rightarrow> (False, h3, w3)))
                      | (True, h2) \<Rightarrow>
                          (case stdin w1 of
                             [] \<Rightarrow> on_exception xl h2 w1
                           | response # rest \<Rightarrow>
                               (let w2 = w1\<lparr>stdin := rest\<rparr> in
                                if lower response \<noteq> ''y'' then
                                  (case restore_from_backup xl h2 w2 of
                                     (r, h3, w3) \<Rightarrow> (False, h3, w3))
                                else
                                  (case workbook h2 of
                                     None \<Rightarrow> on_exception xl h2 w2
                                   | Some b2 \<Rightarrow>
                                       (case book_save xl b2 w2 of
                                          (Some e, w3) \<Rightarrow> on_exception xl h2 w3
                                        | (None, w3) \<Rightarrow>
                                            (case create_backup xl h2 w3 of
                                               (False, h4, w4) \<Rightarrow> (False, h4, w4)
                                             | (True, h4, w4) \<Rightarrow> (True, h4, w4)))))))))))"

subsection \<open>Stand-ins for examples\<close>

text \<open>
  For concrete runs: an Excel that accepts every address and records the calls it receives,
  as the \<open>MagicMock\<close> of the repository's tests does (a document is the list of calls made on
  it, and a file holds that list), and a \<open>float\<close> that reads strings of digits only.
\<close>

definition recording_excel :: "(nat, nat call list, nat call list) excel" where
  "recording_excel =
     \<lparr>sheet_range = (\<lambda>address d. None), perform = (\<lambda>c d. Inr (d @ [c])),
      encode = (\<lambda>d. d), decode = (\<lambda>b. Some b)\<rparr>"

definition digits_float :: "string \<Rightarrow> nat option" where
  "digits_float s = (if s \<noteq> [] \<and> list_all is_09 s then Some (digits_val 0 s) else None)"

definition example_handler :: "(nat, nat call list) ExcelHandler" where
  \<comment> \<open>a handler with the empty workbook \<open>model.xlsx\<close> open and no backup so far\<close>
  "example_handler =
     \<lparr>workbook = Some \<lparr>fullname = ''model.xlsx'', content = []\<rparr>, app = True,
      active_sheet = True, dry_run = False, change_history = [], backup_path = None,
      visible = True\<rparr>"

definition example_world :: "string list \<Rightarrow> exn option list \<Rightarrow> nat call list world" where
  \<comment> \<open>the file of that workbook on disk, the lines typed and the outcomes of the file calls\<close>
  "example_world typed faults =
     \<lparr>disk = [''model.xlsx'' \<mapsto> []], io_faults = faults, stdin = typed\<rparr>"


section \<open>Facts about strings and patterns\<close>

lemma py_split_nonempty: "py_split sep s \<noteq> []"
proof -
  have "split_from sep acc s \<noteq> []" for acc
    by (induction sep acc s rule: split_from.induct) auto
  then show ?thesis by (simp add: py_split_def)
qed

lemma str_contains_single: "str_contains [c] s \<longleftrightarrow> c \<in> set s"
  by (induction s) auto

lemma is_AZ_not_09: "is_AZ c \<Longrightarrow> \<not> is_09 c"
  by (simp add: is_AZ_def is_09_def)

lemma is_AZ_not_isdigit: "is_AZ c \<Longrightarrow> \<not> char_isdigit c"
  by (simp add: is_AZ_def is_09_def char_isdigit_def)

lemma is_09_not_isalpha: "is_09 c \<Longrightarrow> \<not> char_isalpha c"
  by (simp add: is_09_def char_isalpha_def)

lemma is_09_not_space: "is_09 c \<Longrightarrow> \<not> int_space c"
  by (simp add: is_09_def int_space_def)

lemma code_point_colon: "code_point (CHR '':'') = 58"
  by (simp add: code_point_def)

lemma code_point_minus: "code_point (CHR ''-'') = 45"
  by (simp add: code_point_def)

lemma code_point_plus: "code_point (CHR ''+'') = 43"
  by (simp add: code_point_def)

lemma code_point_underscore: "code_point (CHR ''_'') = 95"
  by (simp add: code_point_def)

lemma is_09_not_punct:
  "is_09 c \<Longrightarrow> c \<noteq> CHR ''-'' \<and> c \<noteq> CHR ''+'' \<and> c \<noteq> CHR ''_'' \<and> c \<noteq> CHR '':''"
  using code_point_colon code_point_minus code_point_plus code_point_underscore
  by (auto simp: is_09_def)

lemma is_AZ_not_colon: "is_AZ c \<Longrightarrow> c \<noteq> CHR '':''"
  using code_point_colon by (auto simp: is_AZ_def)

lemma strip_digits: "list_all is_09 s \<Longrightarrow> strip s = s"
proof (cases s rule: rev_cases)
  case Nil
  then show ?thesis by (simp add: strip_def)
next
  case (snoc ys y)
  assume a: "list_all is_09 s"
  show ?thesis
  proof (cases s)
    case Nil
    then show ?thesis by (simp add: strip_def)
  next
    case (Cons x xs)
    with a have "\<not> int_space x" by (simp add: is_09_not_space)
    then have front: "dropWhile int_space s = s" using Cons by simp
    from a snoc have "\<not> int_space y" by (simp add: is_09_not_space)
    then have "dropWhile int_space (rev s) = rev s" using snoc by simp
    with front show ?thesis by (simp add: strip_def)
  qed
qed

lemma no_double_underscore_digits: "list_all is_09 s \<Longrightarrow> no_double_underscore s"
  by (induction s rule: no_double_underscore.induct) (auto dest: is_09_not_punct)

lemma filter_digits: "list_all is_09 s \<Longrightarrow> filter is_09 s = s"
  by (induction s) auto

lemma py_int_on_digits:
  assumes "s \<noteq> []" "list_all is_09 s"
  shows "py_int s =
           (if max_str_digits < length s then
              Inl (ValueError
                (''Exceeds the limit ('' @ show_nat max_str_digits @
                 '' digits) for integer string conversion: value has '' @
                 show_nat (length s) @
                 '' digits; use sys.set_int_max_str_digits() to increase the limit''))
            else Inr (int (digits_val 0 s)))"
proof -
  obtain c cs where s: "s = c # cs" using assms(1) by (cases s) auto
  have c: "is_09 c" using assms(2) s by simp
  have l: "is_09 (last s)" using assms by (metis last_in_set list_all_iff)
  have la: "list_all (\<lambda>x. is_09 x \<or> x = CHR ''_'') s"
    using assms(2) by (simp add: list_all_iff)
  have run: "takeWhile (\<lambda>x. is_09 x \<or> x = CHR ''_'') s = s"
    using la by (simp add: list_all_iff)
  have ok: "int_body_ok s"
    using s c l la no_double_underscore_digits[OF assms(2)] by (simp add: int_body_ok_def)
  have body: "(case s of [] \<Rightarrow> [] | c # cs \<Rightarrow> if c = CHR ''-'' \<or> c = CHR ''+'' then cs else c # cs) = s"
    using s is_09_not_punct[OF c] by simp
  have neg: "(case s of [] \<Rightarrow> False | c # x \<Rightarrow> c = CHR ''-'') = False"
    using s is_09_not_punct[OF c] by simp
  show ?thesis
    unfolding py_int_def Let_def strip_digits[OF assms(2)] body neg run filter_digits[OF assms(2)]
    using ok by simp
qed

text \<open>
  On a non-empty string of at most 4300 of the digits 0 to 9, \<open>int\<close> is the decimal value;
  on a longer one it raises.
\<close>

lemma py_int_digits:
  assumes "s \<noteq> []" "list_all is_09 s" "length s \<le> 4300"
  shows "py_int s = Inr (int (digits_val 0 s))"
  using py_int_on_digits[OF assms(1,2)] assms(3) by (simp add: max_str_digits_def)

lemma py_int_too_many_digits:
  assumes "list_all is_09 s" "4300 < length s"
  shows "\<exists>m. py_int s = Inl (ValueError m)"
proof -
  have "s \<noteq> []" using assms(2) by auto
  from py_int_on_digits[OF this assms(1)] assms(2) show ?thesis
    by (simp add: max_str_digits_def)
qed

lemma digits_val_leading_zeros:
  "digits_val 0 (replicate k (CHR ''0'') @ s) = digits_val 0 s"
  by (induction k) (simp_all add: code_point_def)

lemma cell_at_append:
  assumes "col \<noteq> []" "list_all is_AZ col" "row \<noteq> []" "list_all is_09 row"
    and "rest = [] \<or> \<not> is_09 (hd rest)"
  shows "cell_at (col @ row @ rest) = Some (col, row, rest)"
proof -
  obtain d ds where row: "row = d # ds" using assms(3) by (cases row) auto
  have d: "\<not> is_AZ d" using assms(4) row is_AZ_not_09 by auto
  have 1: "takeWhile is_AZ (col @ row @ rest) = col"
    using assms(2) d row by (simp add: list_all_iff takeWhile_append2)
  have 2: "dropWhile is_AZ (col @ row @ rest) = row @ rest"
    using assms(2) d row by (simp add: list_all_iff dropWhile_append2)
  have 3: "takeWhile is_09 (row @ rest) = row"
    using assms(4,5) by (cases rest) (auto simp: list_all_iff takeWhile_append2)
  have 4: "dropWhile is_09 (row @ rest) = rest"
    using assms(4,5) by (cases rest) (auto simp: list_all_iff dropWhile_append2)
  show ?thesis using 1 2 3 4 assms(1,3) by (simp add: cell_at_def Let_def)
qed

lemma cell_at_shape:
  assumes "cell_at s = Some (col, row, rest)"
  shows "s = col @ row @ rest \<and> col \<noteq> [] \<and> list_all is_AZ col \<and>
         row \<noteq> [] \<and> list_all is_09 row"
  using assms
  by (auto simp: cell_at_def Let_def list_all_iff split: if_splits dest: set_takeWhileD)

lemma cell_at_not_bare:
  assumes "cell_at s = Some (col, row, rest)"
  shows "\<not> isdigit s" "\<not> isalpha s"
proof -
  from cell_at_shape[OF assms] obtain c cs d ds where
    s: "s = col @ row @ rest" and col: "col = c # cs" "is_AZ c" and row: "row = d # ds" "is_09 d"
    by (cases col; cases row) auto
  show "\<not> isdigit s" using s col is_AZ_not_isdigit by (auto simp: isdigit_def)
  show "\<not> isalpha s" using s row is_09_not_isalpha by (auto simp: isalpha_def)
qed

lemmas char_class_defs =
  is_AZ_def is_09_def char_isdigit_def char_isalpha_def char_isnumeric_def is_word_def
  int_space_def code_point_def

lemma isdigit_no_colon: "isdigit s \<Longrightarrow> \<not> str_contains '':'' s"
  by (auto simp: isdigit_def str_contains_single list_all_iff char_isdigit_def is_09_def
                 code_point_def)

lemma isalpha_no_colon: "isalpha s \<Longrightarrow> \<not> str_contains '':'' s"
  by (auto simp: isalpha_def str_contains_single list_all_iff char_isalpha_def code_point_def)

lemma isdigit_not_isalpha: "isdigit s \<Longrightarrow> \<not> isalpha s"
  by (cases s) (auto simp: isdigit_def isalpha_def char_isdigit_def char_isalpha_def is_09_def)

lemma parse_cell_reference_cell:
  assumes "col \<noteq> []" "list_all is_AZ col" "row \<noteq> []" "list_all is_09 row"
  shows "parse_cell_reference (col @ row) =
           (case py_int row of
              Inl e \<Rightarrow> Inl e
            | Inr row_num \<Rightarrow>
                if length col > 3
                then Inl (ValueError (''Invalid column reference: '' @ col))
                else if row_num < 1 \<or> row_num > 1048576
                then Inl (ValueError (''Invalid row number: '' @ show_int row_num))
                else Inr [col, row])"
proof -
  have ca: "cell_at (col @ row) = Some (col, row, [])"
    using cell_at_append[OF assms, of "[]"] by simp
  have nc: "\<not> str_contains '':'' (col @ row)"
    using assms(2,4) is_09_not_punct is_AZ_not_colon
    by (auto simp: str_contains_single list_all_iff)
  show ?thesis
    using ca nc cell_at_not_bare[OF ca] by (simp add: parse_cell_reference_def)
qed

lemma parse_cell_reference_col_row:
  assumes "col \<noteq> []" "length col \<le> 3" "list_all is_AZ col"
    and "row \<noteq> []" "list_all is_09 row"
    and "py_int row = Inr n" "1 \<le> n" "n \<le> 1048576"
  shows "parse_cell_reference (col @ row) = Inr [col, row]"
proof -
  have ca: "cell_at (col @ row) = Some (col, row, [])"
    using cell_at_append[OF assms(1,3,4,5), of "[]"] by simp
  have nc: "\<not> str_contains '':'' (col @ row)"
    using assms(3,5) is_09_not_punct is_AZ_not_colon
    by (auto simp: str_contains_single list_all_iff)
  show ?thesis
    using ca nc cell_at_not_bare[OF ca] assms(2,6,7,8)
    by (simp add: parse_cell_reference_def)
qed

lemmas eval_defs =
  parse_change_instruction_def parse_change_instruction_body_def new_change_def bindE_def
  group1_def after_literal_def cell_group_def range_group_def letters_group_def digits_group_def
  formula_target_at_def named_range_at_def cell_at_def range_at_def convert_value_def
  validate_line_def validate_line_body_def check_target_def unpack2_def item0_def py_split_def
  parse_cell_reference_def isdigit_def isalpha_def py_int_def max_str_digits_def strip_def
  int_body_ok_def
  char_class_defs digits_float_def Let_def

section \<open>Address validation\<close>

text \<open>
  C5, as amended. A single-cell reference made of one to three letters A to Z followed by
  digits 0 to 9, whose row number lies in 1 to 1048576, is accepted when the row is written
  with at most 4300 digits, and the result is then the pair of the column letters and the
  row digits exactly as they stand in the input. A row written with more digits (a row
  number padded with zeros) is rejected with a \<open>ValueError\<close>: \<open>int(row)\<close> refuses it.
\<close>

theorem parse_cell_reference_valid_single_cell:
  assumes "col \<noteq> []" "length col \<le> 3" "list_all is_AZ col"
    and "row \<noteq> []" "list_all is_09 row"
    and "1 \<le> digits_val 0 row" "digits_val 0 row \<le> 1048576"
  shows "(length row \<le> 4300 \<longrightarrow> parse_cell_reference (col @ row) = Inr [col, row]) \<and>
         (4300 < length row \<longrightarrow> (\<exists>m. parse_cell_reference (col @ row) = Inl (ValueError m)))"
proof -
  note p = parse_cell_reference_cell[OF assms(1,3,4,5)]
  have a: "parse_cell_reference (col @ row) = Inr [col, row]" if "length row \<le> 4300"
    using p py_int_digits[OF assms(4,5) that] assms(2,6,7) by simp
  have b: "\<exists>m. parse_cell_reference (col @ row) = Inl (ValueError m)" if "4300 < length row"
    using p py_int_too_many_digits[OF assms(5) that] by auto
  from a b show ?thesis by blast
qed

theorem parse_cell_reference_valid_single_cell_witness:
  "length ''1048576'' \<le> 4300 \<and> digits_val 0 ''1048576'' = 1048576 \<and>
   parse_cell_reference (''XFD'' @ ''1048576'') = Inr [''XFD'', ''1048576'']"
proof -
  have d: "list_all is_09 ''1048576''" by (simp add: is_09_def code_point_def)
  have v: "digits_val 0 ''1048576'' = 1048576" by (simp add: code_point_def)
  have a: "list_all is_AZ ''XFD''" by (simp add: is_AZ_def code_point_def)
  show ?thesis
    using parse_cell_reference_valid_single_cell[OF _ _ a _ d, unfolded v] v by simp
qed

text \<open>
  The reference \<open>A\<close> followed by 4300 zeros and a one matches the pattern and its row
  number is 1, but \<open>int\<close> raises on its 4301 digits and the reference is rejected.
\<close>

theorem parse_cell_reference_zero_padded_row_rejected:
  "digits_val 0 (replicate 4300 (CHR ''0'') @ ''1'') = 1 \<and>
   parse_cell_reference (''A'' @ replicate 4300 (CHR ''0'') @ ''1'') =
     Inl (ValueError ''Exceeds the limit (4300 digits) for integer string conversion: value has 4301 digits; use sys.set_int_max_str_digits() to increase the limit'')"
proof -
  let ?row = "replicate 4300 (CHR ''0'') @ ''1''"
  let ?msg = "''Exceeds the limit (4300 digits) for integer string conversion: value has 4301 digits; use sys.set_int_max_str_digits() to increase the limit''"
  have v: "digits_val 0 ?row = 1"
    by (simp add: digits_val_leading_zeros code_point_def)
  have d: "list_all is_09 ?row" by (simp add: list_all_iff is_09_def code_point_def)
  have n: "?row \<noteq> []" by simp
  have a: "list_all is_AZ ''A''" by (simp add: is_AZ_def code_point_def)
  have l: "length ?row = 4301" by simp
  have s1: "show_nat 4300 = ''4300''" by (simp add: digit_char_def)
  have s2: "show_nat 4301 = ''4301''" by (simp add: digit_char_def)
  have i: "py_int ?row = Inl (ValueError ?msg)"
    unfolding py_int_on_digits[OF n d] l max_str_digits_def s1 s2 by simp
  have "parse_cell_reference (''A'' @ ?row) = Inl (ValueError ?msg)"
    using parse_cell_reference_cell[OF _ a n d] i by simp
  with v show ?thesis by blast
qed

text \<open>
  C4, as amended. \<open>_parse_cell_reference\<close> raises a \<open>ValueError\<close> whenever the row number
  it extracts is outside 1 to 1048576 or the column label is longer than three characters:
  for a bare row (\<open>isdigit\<close>), for a bare column (\<open>isalpha\<close>), and, in a reference without
  a colon, for the column and row that the pattern extracts. Nothing is clamped. A
  reference with a colon is returned split and unchecked.
\<close>

theorem parse_cell_reference_bounds_without_colon:
  assumes "(isdigit s \<and> py_int s = Inr n \<and> (n < 1 \<or> 1048576 < n)) \<or>
           (isalpha s \<and> 3 < length s) \<or>
           (\<not> str_contains '':'' s \<and> cell_at s = Some (col, row, rest) \<and>
              py_int row = Inr n \<and> (3 < length col \<or> n < 1 \<or> 1048576 < n))"
  shows "\<exists>m. parse_cell_reference s = Inl (ValueError m)"
proof -
  consider (row) "isdigit s" "py_int s = Inr n" "n < 1 \<or> 1048576 < n"
    | (col) "isalpha s" "3 < length s"
    | (cell) "\<not> str_contains '':'' s" "cell_at s = Some (col, row, rest)" "py_int row = Inr n"
        "3 < length col \<or> n < 1 \<or> 1048576 < n"
    using assms by blast
  then show ?thesis
  proof cases
    case row
    then show ?thesis using isdigit_no_colon[of s] by (auto simp: parse_cell_reference_def)
  next
    case col
    then show ?thesis using isalpha_no_colon[of s] isdigit_not_isalpha[of s]
      by (auto simp: parse_cell_reference_def)
  next
    case cell
    then show ?thesis using cell_at_not_bare[OF cell(2)]
      by (auto simp: parse_cell_reference_def)
  qed
qed

text \<open>The reference of the repository's own test, \<open>ZZ99999999\<close>: the row is out of bounds.\<close>

theorem parse_cell_reference_bounds_without_colon_witness:
  "\<not> str_contains '':'' ''ZZ99999999'' \<and>
   cell_at ''ZZ99999999'' = Some (''ZZ'', ''99999999'', []) \<and>
   py_int ''99999999'' = Inr 99999999 \<and>
   (\<exists>m. parse_cell_reference ''ZZ99999999'' = Inl (ValueError m))"
proof -
  have a: "\<not> str_contains '':'' ''ZZ99999999''" by simp
  have b: "cell_at ''ZZ99999999'' = Some (''ZZ'', ''99999999'', [])"
    by (simp add: cell_at_def char_class_defs)
  have d: "list_all is_09 ''99999999''" by (simp add: is_09_def code_point_def)
  have c: "py_int ''99999999'' = Inr 99999999"
    using py_int_digits[OF _ d] by (simp add: code_point_def)
  show ?thesis
    using parse_cell_reference_bounds_without_colon
            [of "''ZZ99999999''" 99999999 "''ZZ''" "''99999999''" "[]"] a b c
    by simp
qed

text \<open>
  The column-only reference \<open>AAAA:AAAA\<close> has a column label of four letters, and the method
  returns it split in two without raising: its first branch returns before any check.
\<close>

theorem parse_cell_reference_colon_unchecked:
  "parse_cell_reference ''AAAA:AAAA'' = Inr [''AAAA'', ''AAAA'']"
  by (simp add: eval_defs)

text \<open>
  The batch validator splits a target at its colon before it calls the method, so both ends
  of a range are checked; of the source range of a copy it checks the first cell only.
\<close>

lemma validate_changes_copy_source_end_unchecked:
  "map status (validate_changes digits_float [''Copy range A1:AAAA5 to B1'']) = [''valid'']"
  by (simp add: eval_defs)

text \<open>
  C7. The claim asks that a combined reference which is not exactly letters followed by
  digits be rejected. \<open>re.match\<close> anchors the pattern at the start only, so text after
  the digits is ignored: \<open>A1x\<close> and \<open>A1!\<close> are accepted as column A, row 1.
\<close>

theorem parse_cell_reference_accepts_trailing_text:
  "parse_cell_reference ''A1x'' = Inr [''A'', ''1''] \<and>
   parse_cell_reference ''A1!'' = Inr [''A'', ''1'']"
  by (simp add: eval_defs)

section \<open>The instruction parser\<close>

text \<open>
  C6, as amended. A line that contains \<open>Create named range\<close>, reaches that branch (none
  of the earlier branches takes it) and does not match the pattern makes the body of the
  parser raise \<open>ValueError\<close>; the parser's own \<open>except Exception\<close> catches it, and the
  parser returns \<open>None\<close>. The parser never raises.
\<close>

theorem named_range_mismatch_returns_none:
  assumes "str_contains ''Create named range'' change"
    and "\<not> str_contains ''Update cell'' change"
    and "\<not> (str_contains ''Format'' change \<and> str_contains ''as header'' change)"
    and "\<not> (str_contains ''Set'' change \<and> str_contains ''number format'' change)"
    and "\<not> (str_contains ''Set'' change \<and> str_contains ''formula'' change)"
    and "\<not> str_contains ''Copy range'' change"
    and "\<not> (str_contains ''Set column'' change \<and> str_contains ''width'' change)"
    and "\<not> str_contains ''Clear contents'' change"
    and "\<not> str_contains ''Insert row'' change"
    and "\<not> str_contains ''Delete column'' change"
    and "re_search named_range_at change = None"
  shows "parse_change_instruction_body float_of change =
           Inl (ValueError (''Invalid named range format: '' @ change)) \<and>
         parse_change_instruction float_of change = None"
proof -
  have "parse_change_instruction_body float_of change =
           Inl (ValueError (''Invalid named range format: '' @ change))"
    unfolding parse_change_instruction_body_def using assms
    by (simp only: if_False if_True option.case HOL.simp_thms)
  then show ?thesis by (simp add: parse_change_instruction_def)
qed

theorem named_range_mismatch_returns_none_witness:
  "parse_change_instruction_body digits_float ''Create named range BaseRevenue A2:A5'' =
     Inl (ValueError (''Invalid named range format: '' @ ''Create named range BaseRevenue A2:A5'')) \<and>
   parse_change_instruction digits_float ''Create named range BaseRevenue A2:A5'' = None"
  by (rule named_range_mismatch_returns_none)
     (simp_all add: named_range_at_def range_at_def cell_at_def char_class_defs)

text \<open>A named-range line without a name: the parser returns \<open>None\<close>, it does not raise.\<close>

theorem named_range_mismatch_not_raised:
  "parse_change_instruction digits_float ''Create named range for A2:A5'' = None"
  by (simp add: eval_defs)

section \<open>The batch validator\<close>

text \<open>
  C3. \<open>validate_changes\<close> returns one change per input line, in the order of the lines: the
  result has the length of the input and its i-th element is the change that the loop body
  produces for the i-th line. No exception leaves it: the change of a line has status
  \<open>valid\<close> when the line parses and its target passes the address checks, and status
  \<open>error\<close> in every other case, whichever exception was raised on the way.
\<close>

theorem validate_changes_one_result_per_line:
  "length (validate_changes float_of changes) = length changes \<and>
   (\<forall>i < length changes.
      validate_changes float_of changes ! i = validate_line float_of (changes ! i) \<and>
      status (validate_line float_of (changes ! i)) =
        (if (\<exists>c. parse_change_instruction float_of (changes ! i) = Some c \<and>
                  check_target (target c) = Inr ())
         then ''valid'' else ''error''))"
proof -
  have len: "length (validate_changes float_of changes) = length changes"
    by (induction changes) auto
  have nth: "validate_changes float_of changes ! i = validate_line float_of (changes ! i)"
    if "i < length changes" for i
    using that by (induction changes arbitrary: i) (auto simp: nth_Cons split: nat.splits)
  have st: "status (validate_line float_of line) =
        (if (\<exists>c. parse_change_instruction float_of line = Some c \<and>
                  check_target (target c) = Inr ())
         then ''valid'' else ''error'')" for line
    by (auto simp: validate_line_def validate_line_body_def
             split: option.splits sum.splits exn.splits)
  show ?thesis using len nth st by blast
qed

theorem validate_changes_one_result_per_line_witness:
  "length (validate_changes digits_float
             [''Update cell ZZ99999999 to Revenue'', ''Invalid instruction format'']) = 2 \<and>
   validate_changes digits_float
     [''Update cell ZZ99999999 to Revenue'', ''Invalid instruction format''] ! 1
     = validate_line digits_float ''Invalid instruction format'' \<and>
   status (validate_line digits_float ''Invalid instruction format'') = ''error''"
proof -
  have n: "parse_change_instruction digits_float ''Invalid instruction format'' = None"
    by (simp add: eval_defs)
  show ?thesis
    using validate_changes_one_result_per_line
            [of digits_float "[''Update cell ZZ99999999 to Revenue'', ''Invalid instruction format'']"] n
    by (auto simp del: validate_changes.simps)
qed

text \<open>
  C10. When the parser returns \<open>None\<close> for a line, or an unexpected exception leaves the
  \<open>try\<close> block of its iteration, the change that \<open>validate_changes\<close> puts in its place has
  operation \<open>UPDATE\<close>, an empty target and an empty string as value (and status \<open>error\<close>).
  Two lines that do not parse give the same record, whatever they asked for, so the kind
  of the failed instruction cannot be read from it.
\<close>

theorem validate_line_error_record_is_blank:
  "((parse_change_instruction float_of line = None \<or>
     (\<exists>e. validate_line_body float_of line = Inl e)) \<longrightarrow>
      operation (validate_line float_of line) = UPDATE \<and>
      target (validate_line float_of line) = [] \<and>
      change_value (validate_line float_of line) = PyStr [] \<and>
      status (validate_line float_of line) = ''error'') \<and>
   (parse_change_instruction float_of line = None \<and>
    parse_change_instruction float_of line' = None \<longrightarrow>
      validate_line float_of line = validate_line float_of line')"
  by (auto simp: validate_line_def validate_line_body_def
           split: option.splits sum.splits exn.splits)

theorem validate_line_error_record_is_blank_witness:
  "operation (validate_line digits_float ''Format A1:invalid as header'') = UPDATE \<and>
   target (validate_line digits_float ''Format A1:invalid as header'') = [] \<and>
   change_value (validate_line digits_float ''Format A1:invalid as header'') = PyStr [] \<and>
   status (validate_line digits_float ''Format A1:invalid as header'') = ''error'' \<and>
   validate_line digits_float ''Format A1:invalid as header'' =
     validate_line digits_float ''Create named range BaseRevenue A2:A5''"
proof -
  have a: "parse_change_instruction digits_float ''Format A1:invalid as header'' = None"
    by (simp add: eval_defs)
  have b: "parse_change_instruction digits_float ''Create named range BaseRevenue A2:A5'' = None"
    by (simp add: eval_defs)
  show ?thesis
    using validate_line_error_record_is_blank
            [of digits_float "''Format A1:invalid as header''"
                "''Create named range BaseRevenue A2:A5''"] a b
    by blast
qed

section \<open>Facts about the file calls, backup and restore\<close>

lemma io_call_keeps:
  "io_call w = (f, w1) \<Longrightarrow> disk w1 = disk w \<and> stdin w1 = stdin w"
  by (auto simp: io_call_def split: list.splits)

lemma book_save_ok:
  "book_save xl b w = (None, w1) \<Longrightarrow>
     disk w1 = (disk w)(fullname b \<mapsto> encode xl (content b)) \<and> stdin w1 = stdin w"
  by (auto simp: book_save_def split: prod.splits option.splits dest: io_call_keeps)

lemma book_save_fail:
  "book_save xl b w = (Some e, w1) \<Longrightarrow> disk w1 = disk w \<and> stdin w1 = stdin w"
  by (auto simp: book_save_def split: prod.splits option.splits dest: io_call_keeps)

lemma copy2_ok:
  "copy2 src dst w = (None, w1) \<Longrightarrow>
     src \<noteq> dst \<and> disk w src \<noteq> None \<and> disk w1 = (disk w)(dst := disk w src) \<and> stdin w1 = stdin w"
  by (auto simp: copy2_def split: prod.splits option.splits if_splits dest: io_call_keeps)

lemma copy2_fail:
  "copy2 src dst w = (Some e, w1) \<Longrightarrow> disk w1 = disk w \<and> stdin w1 = stdin w"
  by (auto simp: copy2_def split: prod.splits option.splits if_splits dest: io_call_keeps)

lemma os_remove_ok:
  "os_remove path w = (None, w1) \<Longrightarrow> disk w1 = (disk w)(path := None) \<and> stdin w1 = stdin w"
  by (auto simp: os_remove_def split: prod.splits option.splits dest: io_call_keeps)

lemma os_remove_fail:
  "os_remove path w = (Some e, w1) \<Longrightarrow> disk w1 = disk w \<and> stdin w1 = stdin w"
  by (auto simp: os_remove_def split: prod.splits option.splits dest: io_call_keeps)

lemma books_open_keeps:
  "books_open xl path w = (r, w1) \<Longrightarrow> disk w1 = disk w \<and> stdin w1 = stdin w"
  by (auto simp: books_open_def split: prod.splits option.splits dest: io_call_keeps)

lemma books_open_ok:
  "books_open xl path w = (Inr b, w1) \<Longrightarrow>
     fullname b = path \<and> disk w1 = disk w \<and> stdin w1 = stdin w \<and>
     (\<exists>bytes. disk w path = Some bytes \<and> decode xl bytes = Some (content b))"
  by (auto simp: books_open_def split: prod.splits option.splits dest: io_call_keeps)

lemma create_backup_handler:
  "create_backup xl h w = (r, h1, w1) \<Longrightarrow>
     h1 = (if r then h\<lparr>backup_path := Some backup_file\<rparr> else h) \<and> stdin w1 = stdin w"
  by (auto simp: create_backup_def split: option.splits prod.splits
           dest!: book_save_ok book_save_fail copy2_ok copy2_fail)

lemma create_backup_True:
  "create_backup xl h w = (True, h1, w1) \<Longrightarrow>
     \<exists>b. workbook h = Some b \<and> fullname b \<noteq> backup_file \<and>
         disk w1 = (disk w)(fullname b \<mapsto> encode xl (content b),
                            backup_file \<mapsto> encode xl (content b))"
  by (auto simp: create_backup_def split: option.splits prod.splits
           dest!: book_save_ok copy2_ok)

lemma create_backup_False:
  "create_backup xl h w = (False, h1, w1) \<Longrightarrow>
     disk w1 = disk w \<or>
     (\<exists>b. workbook h = Some b \<and> disk w1 = (disk w)(fullname b \<mapsto> encode xl (content b)))"
  by (auto simp: create_backup_def split: option.splits prod.splits
           dest!: book_save_ok book_save_fail copy2_fail)

lemma restore_no_workbook:
  "workbook h = None \<Longrightarrow> restore_from_backup xl h w = (False, h, w)"
  by (simp add: restore_from_backup_def split: option.splits)

lemma on_exception_no_workbook:
  "workbook h = None \<Longrightarrow> on_exception xl h w = (False, h, w)"
  by (simp add: on_exception_def restore_no_workbook split: option.splits)

lemma restore_True:
  assumes "restore_from_backup xl h w = (True, h', w')"
  shows "\<exists>b bp bytes d. workbook h = Some b \<and> backup_path h = Some bp \<and> bp \<noteq> fullname b \<and>
           disk w bp = Some bytes \<and> decode xl bytes = Some d \<and>
           disk w' = (disk w)(fullname b \<mapsto> bytes) \<and>
           workbook h' = Some \<lparr>fullname = fullname b, content = d\<rparr> \<and> stdin w' = stdin w"
  using assms
  unfolding restore_from_backup_def book_close_def book_activate_def Let_def
  apply (simp split: option.splits if_splits prod.splits sum.splits)
  apply (auto dest!: io_call_keeps os_remove_ok copy2_ok books_open_ok)
  done

lemma apply_validated_changes_keeps:
  "apply_validated_changes xl cs h = (r, h') \<Longrightarrow>
     backup_path h' = backup_path h \<and> app h' = app h \<and> dry_run h' = dry_run h \<and>
     active_sheet h' = active_sheet h \<and>
     map_option fullname (workbook h') = map_option fullname (workbook h)"
proof (induction cs arbitrary: h)
  case Nil
  then show ?case by simp
next
  case (Cons c cs)
  show ?case
  proof (cases "workbook h")
    case None
    with Cons.prems show ?thesis by simp
  next
    case (Some b)
    show ?thesis
    proof (cases "active_sheet h")
      case False
      with Cons.prems Some show ?thesis by simp
    next
      case True
      show ?thesis
      proof (cases "apply_change xl c (content b)")
        case (Inl e)
        with Cons.prems Some True show ?thesis by simp
      next
        case (Inr d)
        let ?h = "h\<lparr>workbook := Some (b\<lparr>content := d\<rparr>),
                     change_history := change_history h @ [c\<lparr>status := ''applied''\<rparr>]\<rparr>"
        from Cons.prems Some True Inr have "apply_validated_changes xl cs ?h = (r, h')" by simp
        from Cons.IH[OF this] Some show ?thesis by simp
      qed
    qed
  qed
qed


lemma split_from_no_sep: "c \<notin> set s \<Longrightarrow> split_from [c] acc s = [rev acc @ s]"
  by (induction s arbitrary: acc) auto

lemma split_from_first:
  "c \<notin> set a \<Longrightarrow> split_from [c] acc (a @ c # s) = (rev acc @ a) # split_from [c] [] s"
  by (induction a arbitrary: acc) auto

lemma py_split_colon_pair:
  assumes "CHR '':'' \<notin> set a" "CHR '':'' \<notin> set b"
  shows "py_split '':'' (a @ '':'' @ b) = [a, b]"
  using split_from_first[OF assms(1), of "[]" b] split_from_no_sep[OF assms(2), of "[]"]
  by (simp add: py_split_def)

lemma cell_no_colon:
  "list_all is_AZ c \<Longrightarrow> list_all is_09 r \<Longrightarrow> CHR '':'' \<notin> set (c @ r)"
  using is_09_not_punct is_AZ_not_colon by (auto simp: list_all_iff)

lemma all_valid_no_error:
  "\<exists>c \<in> set cs. status c = ''error'' \<Longrightarrow> \<not> list_all (\<lambda>c. status c = ''valid'') cs"
  by (force simp: list_all_iff)

lemmas state_defs =
  apply_changes_def create_backup_def restore_from_backup_def on_exception_def
  book_save_def copy2_def os_remove_def book_close_def books_open_def book_activate_def
  io_call_def backup_file_def apply_change_def get_range_def dict_get_def
  recording_excel_def example_handler_def example_world_def lower_def char_lower_def

section \<open>The transactional apply\<close>

text \<open>
  C1. When at least one line of the batch gives a change with status \<open>error\<close>,
  \<open>apply_changes\<close> returns \<open>False\<close> and applies no operation: the open workbook (its
  document and its name), the active sheet and the change history are what they were. On
  disk only the backup step may have written: it saves the unchanged document to its own
  file and copies that file to the backup location.
\<close>

theorem apply_changes_invalid_batch_untouched:
  assumes req: "instructions ''required_changes'' = Some changes"
    and bad: "\<exists>c \<in> set (validate_changes float_of changes). status c = ''error''"
    and run: "apply_changes xl float_of instructions h w = (r, h', w')"
  shows "\<not> r \<and> workbook h' = workbook h \<and> active_sheet h' = active_sheet h \<and>
         change_history h' = change_history h \<and>
         (\<forall>p. disk w' p \<noteq> disk w p \<longrightarrow>
            (\<exists>b. workbook h = Some b \<and> (p = fullname b \<or> p = backup_file) \<and>
                 disk w' p = Some (encode xl (content b))))"
proof -
  have ne: "changes \<noteq> []" using bad by auto
  note nv = all_valid_no_error[OF bad]
  show ?thesis
  proof (cases "workbook h")
    case None
    with run req ne show ?thesis
      by (simp add: apply_changes_def on_exception_no_workbook)
  next
    case (Some b)
    show ?thesis
    proof (cases "disk w (fullname b) = None")
      case True
      with run req ne nv Some show ?thesis by (simp add: apply_changes_def)
    next
      case False
      obtain ok h1 w1 where cb: "create_backup xl h w = (ok, h1, w1)"
        by (cases "create_backup xl h w") auto
      from run req ne nv Some False cb have res: "r = False" "h' = h1" "w' = w1"
        by (auto simp: apply_changes_def split: bool.splits)
      show ?thesis
      proof (cases ok)
        case True
        with cb have "create_backup xl h w = (True, h1, w1)" by simp
        from create_backup_True[OF this] create_backup_handler[OF cb] Some res True
        show ?thesis by auto
      next
        case False
        with cb have "create_backup xl h w = (False, h1, w1)" by simp
        from create_backup_False[OF this] create_backup_handler[OF cb] Some res False
        show ?thesis by (auto split: if_splits)
      qed
    qed
  qed
qed

theorem apply_changes_invalid_batch_untouched_witness:
  "(\<exists>c \<in> set (validate_changes digits_float [''Update cell ZZ99999999 to Revenue'']).
      status c = ''error'') \<and>
   apply_changes recording_excel digits_float
     [''required_changes'' \<mapsto> [''Update cell ZZ99999999 to Revenue'']]
     example_handler (example_world [] []) =
   (False, example_handler\<lparr>backup_path := Some backup_file\<rparr>,
    \<lparr>disk = [''model.xlsx'' \<mapsto> [], backup_file \<mapsto> []], io_faults = [], stdin = []\<rparr>)"
proof -
  have bad: "\<exists>c \<in> set (validate_changes digits_float [''Update cell ZZ99999999 to Revenue'']).
      status c = ''error''"
    by (simp add: eval_defs)
  have run: "apply_changes recording_excel digits_float
     [''required_changes'' \<mapsto> [''Update cell ZZ99999999 to Revenue'']]
     example_handler (example_world [] []) =
   (False, example_handler\<lparr>backup_path := Some backup_file\<rparr>,
    \<lparr>disk = [''model.xlsx'' \<mapsto> [], backup_file \<mapsto> []], io_faults = [], stdin = []\<rparr>)"
    by (simp add: state_defs eval_defs)
  from apply_changes_invalid_batch_untouched[OF _ bad run] bad run show ?thesis by simp
qed


text \<open>
  C2, as amended. Take a non-empty batch on a workbook whose file is on disk when
  \<open>apply_changes\<close> is called, so that the backup before the changes is taken; let the batch
  validate and apply. If the answer at the prompt is not \<open>y\<close>, \<open>apply_changes\<close> calls
  \<open>restore_from_backup\<close> and returns \<open>False\<close> in the state that call leaves; and when the
  restore succeeds, the bytes of the workbook's file are those it had when the backup was
  taken (the document as saved then), and the workbook is reopened from them.
\<close>

theorem veto_restores_backup_bytes:
  assumes req: "instructions ''required_changes'' = Some changes" and ne: "changes \<noteq> []"
    and wb: "workbook h = Some b" and onfile: "disk w (fullname b) \<noteq> None"
    and bk: "create_backup xl h w = (True, h1, w1)"
    and valid: "list_all (\<lambda>c. status c = ''valid'') (validate_changes float_of changes)"
    and live: "\<not> dry_run h"
    and appl: "apply_validated_changes xl (validate_changes float_of changes) h1 = (True, h2)"
    and ans: "stdin w = response # rest" "lower response \<noteq> ''y''"
    and rst: "restore_from_backup xl h2 (w1\<lparr>stdin := rest\<rparr>) = (restored, h3, w3)"
  shows "apply_changes xl float_of instructions h w = (False, h3, w3) \<and>
         (restored \<longrightarrow>
            disk w3 (fullname b) = disk w1 (fullname b) \<and>
            disk w1 (fullname b) = Some (encode xl (content b)) \<and>
            (\<exists>d. decode xl (encode xl (content b)) = Some d \<and>
                 workbook h3 = Some \<lparr>fullname = fullname b, content = d\<rparr>))"
proof -
  from create_backup_handler[OF bk] have h1: "h1 = h\<lparr>backup_path := Some backup_file\<rparr>"
    and in1: "stdin w1 = stdin w" by auto
  from create_backup_True[OF bk] wb have nb: "fullname b \<noteq> backup_file"
    and d1: "disk w1 = (disk w)(fullname b \<mapsto> encode xl (content b),
                                backup_file \<mapsto> encode xl (content b))" by auto
  from apply_validated_changes_keeps[OF appl] h1 wb
  have bp2: "backup_path h2 = Some backup_file"
    and fn2: "map_option fullname (workbook h2) = Some (fullname b)" by auto
  have run: "apply_changes xl float_of instructions h w = (False, h3, w3)"
    using req ne wb onfile bk valid live appl ans rst in1 h1
    by (simp add: apply_changes_def Let_def)
  have "disk w3 (fullname b) = disk w1 (fullname b) \<and>
        disk w1 (fullname b) = Some (encode xl (content b)) \<and>
        (\<exists>d. decode xl (encode xl (content b)) = Some d \<and>
             workbook h3 = Some \<lparr>fullname = fullname b, content = d\<rparr>)" if restored
  proof -
    from rst that have "restore_from_backup xl h2 (w1\<lparr>stdin := rest\<rparr>) = (True, h3, w3)" by simp
    from restore_True[OF this] bp2 fn2 d1 nb show ?thesis by auto
  qed
  with run show ?thesis by blast
qed

theorem veto_restores_backup_bytes_witness:
  "apply_changes recording_excel digits_float
     [''required_changes'' \<mapsto> [''Update cell A1 to Revenue'']]
     example_handler (example_world [''n''] []) =
   (False,
    example_handler
      \<lparr>change_history := [\<lparr>operation = UPDATE, target = ''A1'', change_value = PyStr ''Revenue'',
                            status = ''applied'', error = None\<rparr>],
       backup_path := Some backup_file\<rparr>,
    \<lparr>disk = [backup_file \<mapsto> [], ''model.xlsx'' \<mapsto> []], io_faults = [], stdin = []\<rparr>)"
proof -
  let ?w1 = "\<lparr>disk = [''model.xlsx'' \<mapsto> [], backup_file \<mapsto> ([] :: nat call list)],
              io_faults = [], stdin = [''n'']\<rparr>"
  let ?c = "\<lparr>operation = UPDATE, target = ''A1'', change_value = PyStr ''Revenue'' :: nat pyval,
             status = ''applied'', error = None\<rparr>"
  let ?h2 = "example_handler
      \<lparr>workbook := Some \<lparr>fullname = ''model.xlsx'', content = [SetValue ''A1'' (PyStr ''Revenue'')]\<rparr>,
       change_history := [?c], backup_path := Some backup_file\<rparr>"
  let ?h3 = "example_handler\<lparr>change_history := [?c], backup_path := Some backup_file\<rparr>"
  let ?w3 = "\<lparr>disk = [backup_file \<mapsto> [], ''model.xlsx'' \<mapsto> ([] :: nat call list)],
              io_faults = [], stdin = []\<rparr>"
  have wb: "workbook example_handler = Some \<lparr>fullname = ''model.xlsx'', content = []\<rparr>"
    by (simp add: example_handler_def)
  have onfile: "disk (example_world [''n''] []) (fullname \<lparr>fullname = ''model.xlsx'', content = ([] :: nat call list)\<rparr>) \<noteq> None"
    by (simp add: example_world_def)
  have bk: "create_backup recording_excel example_handler (example_world [''n''] []) =
              (True, example_handler\<lparr>backup_path := Some backup_file\<rparr>, ?w1)"
    by (simp add: state_defs)
  have valid: "list_all (\<lambda>c. status c = ''valid'')
                 (validate_changes digits_float [''Update cell A1 to Revenue''])"
    by (simp add: eval_defs)
  have live: "\<not> dry_run example_handler" by (simp add: example_handler_def)
  have appl: "apply_validated_changes recording_excel
                (validate_changes digits_float [''Update cell A1 to Revenue''])
                (example_handler\<lparr>backup_path := Some backup_file\<rparr>) = (True, ?h2)"
    by (simp add: state_defs eval_defs)
  have ans: "stdin (example_world [''n''] []) = ''n'' # []" "lower ''n'' \<noteq> ''y''"
    by (simp_all add: example_world_def lower_def char_lower_def char_class_defs)
  have rst: "restore_from_backup recording_excel ?h2 (?w1\<lparr>stdin := []\<rparr>) = (True, ?h3, ?w3)"
    by (simp add: state_defs)
  from veto_restores_backup_bytes[OF _ _ wb onfile bk valid live appl ans rst]
  show ?thesis by simp
qed

text \<open>
  Without a file on disk no backup is taken. With no earlier backup either, a negative
  answer restores nothing: \<open>restore_from_backup\<close> returns \<open>False\<close> at once, and the change
  stays in the open workbook.
\<close>

theorem veto_without_file_restores_nothing:
  "apply_changes recording_excel digits_float [''required_changes'' \<mapsto> [''Update cell A1 to Revenue'']]
     example_handler \<lparr>disk = Map.empty, io_faults = [], stdin = [''n'']\<rparr>
   = (False,
      example_handler
        \<lparr>workbook := Some \<lparr>fullname = ''model.xlsx'', content = [SetValue ''A1'' (PyStr ''Revenue'')]\<rparr>,
         change_history := [\<lparr>operation = UPDATE, target = ''A1'', change_value = PyStr ''Revenue'',
                             status = ''applied'', error = None\<rparr>]\<rparr>,
      \<lparr>disk = Map.empty, io_faults = [], stdin = []\<rparr>)"
  by (simp add: apply_changes_def example_handler_def eval_defs recording_excel_def
        apply_change_def get_range_def restore_from_backup_def lower_def char_lower_def)

text \<open>
  With the file on disk and the backup taken, a restore whose copy fails leaves no file
  at the workbook's path and no open workbook: the file was deleted before the copy.
\<close>

lemma veto_with_failed_copy_loses_file:
  "(case apply_changes recording_excel digits_float
          [''required_changes'' \<mapsto> [''Update cell A1 to Revenue'']]
          example_handler
          (example_world [''n''] [None, None, None, None, Some (OSError ''Permission denied'')]) of
      (r, h, w) \<Rightarrow> (r, workbook h, disk w ''model.xlsx'', disk w backup_file))
   = (False, None, None, Some [])"
  by (simp add: state_defs eval_defs)

text \<open>
  C8. Take a non-empty batch that validates and applies and that the user confirms with
  \<open>y\<close>, and let the save of the approved state succeed. If the backup taken after it
  fails, \<open>apply_changes\<close> returns \<open>False\<close>; the workbook keeps the applied changes, and the
  file of the workbook holds the saved document after the failed backup as before it.
\<close>

theorem post_commit_backup_failure_keeps_commit:
  assumes req: "instructions ''required_changes'' = Some changes" and ne: "changes \<noteq> []"
    and wb: "workbook h = Some b"
    and pre: "(if disk w (fullname b) \<noteq> None then create_backup xl h w else (True, h, w))
                = (True, h1, w1)"
    and valid: "list_all (\<lambda>c. status c = ''valid'') (validate_changes float_of changes)"
    and live: "\<not> dry_run h"
    and appl: "apply_validated_changes xl (validate_changes float_of changes) h1 = (True, h2)"
    and ans: "stdin w = response # rest" "lower response = ''y''"
    and wb2: "workbook h2 = Some b2"
    and sv: "book_save xl b2 (w1\<lparr>stdin := rest\<rparr>) = (None, w3)"
    and bk2: "create_backup xl h2 w3 = (False, h4, w4)"
  shows "apply_changes xl float_of instructions h w = (False, h4, w4) \<and>
         workbook h4 = workbook h2 \<and>
         disk w3 (fullname b2) = Some (encode xl (content b2)) \<and>
         disk w4 (fullname b2) = disk w3 (fullname b2)"
proof -
  have h1: "dry_run h1 = dry_run h" and in1: "stdin w1 = stdin w"
    using pre create_backup_handler[of xl h w True h1 w1] by (auto split: if_splits)
  have run: "apply_changes xl float_of instructions h w = (False, h4, w4)"
    using req ne wb pre valid live appl ans wb2 sv bk2 in1 h1
    by (simp add: apply_changes_def Let_def)
  from book_save_ok[OF sv] have d3: "disk w3 (fullname b2) = Some (encode xl (content b2))" by simp
  from create_backup_handler[OF bk2] have h4: "h4 = h2" by simp
  from create_backup_False[OF bk2] wb2 d3 have "disk w4 (fullname b2) = disk w3 (fullname b2)"
    by auto
  with run d3 h4 show ?thesis by simp
qed

theorem post_commit_backup_failure_keeps_commit_witness:
  "apply_changes recording_excel digits_float
     [''required_changes'' \<mapsto> [''Update cell A1 to Revenue'']]
     example_handler
     (example_world [''y''] [None, None, None, None, Some (OSError ''No space left on device'')]) =
   (False,
    example_handler
      \<lparr>workbook := Some \<lparr>fullname = ''model.xlsx'', content = [SetValue ''A1'' (PyStr ''Revenue'')]\<rparr>,
       change_history := [\<lparr>operation = UPDATE, target = ''A1'', change_value = PyStr ''Revenue'',
                            status = ''applied'', error = None\<rparr>],
       backup_path := Some backup_file\<rparr>,
    \<lparr>disk = [backup_file \<mapsto> [], ''model.xlsx'' \<mapsto> [SetValue ''A1'' (PyStr ''Revenue'')]],
     io_faults = [], stdin = []\<rparr>)"
proof -
  let ?f = "[None, None, None, None, Some (OSError ''No space left on device'')]"
  let ?d = "[SetValue ''A1'' (PyStr ''Revenue'')] :: nat call list"
  let ?w1 = "\<lparr>disk = [''model.xlsx'' \<mapsto> [], backup_file \<mapsto> ([] :: nat call list)],
              io_faults = [None, None, Some (OSError ''No space left on device'')], stdin = [''y'']\<rparr>"
  let ?c = "\<lparr>operation = UPDATE, target = ''A1'', change_value = PyStr ''Revenue'' :: nat pyval,
             status = ''applied'', error = None\<rparr>"
  let ?b2 = "\<lparr>fullname = ''model.xlsx'', content = ?d\<rparr>"
  let ?h2 = "example_handler
      \<lparr>workbook := Some ?b2, change_history := [?c], backup_path := Some backup_file\<rparr>"
  let ?w3 = "\<lparr>disk = [backup_file \<mapsto> [], ''model.xlsx'' \<mapsto> ?d],
              io_faults = [None, Some (OSError ''No space left on device'')], stdin = []\<rparr>"
  let ?w4 = "\<lparr>disk = [backup_file \<mapsto> [], ''model.xlsx'' \<mapsto> ?d],
              io_faults = [], stdin = []\<rparr>"
  have wb: "workbook example_handler = Some \<lparr>fullname = ''model.xlsx'', content = []\<rparr>"
    by (simp add: example_handler_def)
  have pre: "(if disk (example_world [''y''] ?f)
                   (fullname \<lparr>fullname = ''model.xlsx'', content = ([] :: nat call list)\<rparr>) \<noteq> None
              then create_backup recording_excel example_handler (example_world [''y''] ?f)
              else (True, example_handler, example_world [''y''] ?f)) =
              (True, example_handler\<lparr>backup_path := Some backup_file\<rparr>, ?w1)"
    by (simp add: state_defs)
  have valid: "list_all (\<lambda>c. status c = ''valid'')
                 (validate_changes digits_float [''Update cell A1 to Revenue''])"
    by (simp add: eval_defs)
  have live: "\<not> dry_run example_handler" by (simp add: example_handler_def)
  have appl: "apply_validated_changes recording_excel
                (validate_changes digits_float [''Update cell A1 to Revenue''])
                (example_handler\<lparr>backup_path := Some backup_file\<rparr>) = (True, ?h2)"
    by (simp add: state_defs eval_defs)
  have ans: "stdin (example_world [''y''] ?f) = ''y'' # []" "lower ''y'' = ''y''"
    by (simp_all add: example_world_def lower_def char_lower_def char_class_defs)
  have wb2: "workbook ?h2 = Some ?b2" by simp
  have sv: "book_save recording_excel ?b2 (?w1\<lparr>stdin := []\<rparr>) = (None, ?w3)"
    by (simp add: state_defs)
  have bk2: "create_backup recording_excel ?h2 ?w3 = (False, ?h2, ?w4)"
    by (simp add: state_defs)
  from post_commit_backup_failure_keeps_commit[OF _ _ wb pre valid live appl ans wb2 sv bk2]
  show ?thesis by simp
qed

text \<open>
  C9. Applying a validated \<open>NAMED_RANGE\<close> change with target \<open>c1r1:c2r2\<close> (columns of one to
  three letters, rows within bounds) and name \<open>n\<close>, on a sheet that knows the range, makes
  exactly the call \<open>names.add(n, "=Sheet1!$c1$r1:$c2$r2")\<close>; the change is then marked
  applied and appended to the history.
\<close>

theorem named_range_registers_absolute_reference:
  assumes c1: "c1 \<noteq> []" "length c1 \<le> 3" "list_all is_AZ c1"
    and r1: "r1 \<noteq> []" "list_all is_09 r1" "py_int r1 = Inr n1" "1 \<le> n1" "n1 \<le> 1048576"
    and c2: "c2 \<noteq> []" "length c2 \<le> 3" "list_all is_AZ c2"
    and r2: "r2 \<noteq> []" "list_all is_09 r2" "py_int r2 = Inr n2" "1 \<le> n2" "n2 \<le> 1048576"
    and ch: "operation change = NAMED_RANGE" "target change = c1 @ r1 @ '':'' @ c2 @ r2"
            "change_value change = PyStr name"
    and h: "workbook h = Some b" "active_sheet h"
    and rg: "sheet_range xl (target change) (content b) = None"
  shows "apply_validated_changes xl [change] h =
           (case perform xl (NamesAdd (PyStr name)
                   (''=Sheet1!$'' @ c1 @ ''$'' @ r1 @ '':$'' @ c2 @ ''$'' @ r2)) (content b) of
              Inl e \<Rightarrow> (False, h)
            | Inr d \<Rightarrow>
                (True, h\<lparr>workbook := Some (b\<lparr>content := d\<rparr>),
                         change_history := change_history h @ [change\<lparr>status := ''applied''\<rparr>]\<rparr>))"
proof -
  have sp: "py_split '':'' (target change) = [c1 @ r1, c2 @ r2]"
    using py_split_colon_pair[OF cell_no_colon[OF c1(3) r1(2)] cell_no_colon[OF c2(3) r2(2)]] ch(2)
    by simp
  have p1: "parse_cell_reference (c1 @ r1) = Inr [c1, r1]"
    using c1 r1 by (rule parse_cell_reference_col_row)
  have p2: "parse_cell_reference (c2 @ r2) = Inr [c2, r2]"
    using c2 r2 by (rule parse_cell_reference_col_row)
  have "apply_change xl change (content b) =
          perform xl (NamesAdd (PyStr name)
             (''=Sheet1!$'' @ c1 @ ''$'' @ r1 @ '':$'' @ c2 @ ''$'' @ r2)) (content b)"
    using ch(1,3) rg sp p1 p2
    by (simp add: apply_change_def get_range_def bindE_def unpack2_def)
  then show ?thesis using h by (simp split: sum.splits)
qed


text \<open>The scenario of the specification: \<open>BaseRevenue\<close> for \<open>A2:A5\<close>.\<close>

theorem named_range_registers_absolute_reference_witness:
  "apply_validated_changes recording_excel
     [\<lparr>operation = NAMED_RANGE, target = ''A2:A5'', change_value = PyStr ''BaseRevenue'',
       status = ''valid'', error = None\<rparr>] example_handler =
   (True, example_handler
      \<lparr>workbook := Some \<lparr>fullname = ''model.xlsx'',
                          content = [NamesAdd (PyStr ''BaseRevenue'') ''=Sheet1!$A$2:$A$5'']\<rparr>,
       change_history := [\<lparr>operation = NAMED_RANGE, target = ''A2:A5'',
                            change_value = PyStr ''BaseRevenue'', status = ''applied'', error = None\<rparr>]\<rparr>)"
proof -
  have a: "list_all is_AZ ''A''" by (simp add: is_AZ_def code_point_def)
  have d2: "list_all is_09 ''2''" and d5: "list_all is_09 ''5''"
    by (simp_all add: is_09_def code_point_def)
  have i2: "py_int ''2'' = Inr 2" using py_int_digits[OF _ d2] by (simp add: code_point_def)
  have i5: "py_int ''5'' = Inr 5" using py_int_digits[OF _ d5] by (simp add: code_point_def)
  have wb: "workbook example_handler = Some \<lparr>fullname = ''model.xlsx'', content = []\<rparr>"
    by (simp add: example_handler_def)
  have sh: "active_sheet example_handler" by (simp add: example_handler_def)
  from named_range_registers_absolute_reference[OF _ _ a _ d2 i2 _ _ _ _ a _ d5 i5 _ _ _ _ _ wb sh,
          of "\<lparr>operation = NAMED_RANGE, target = ''A2:A5'', change_value = PyStr ''BaseRevenue'',
               status = ''valid'', error = None\<rparr>" "''BaseRevenue''" recording_excel]
  show ?thesis by (simp add: recording_excel_def example_handler_def)
qed


end
